theory Spec2Isabelle
  imports Main "HOL-Library.Log_Nat"
begin

section \<open>JavaScript numbers\<close>

text \<open>
  The pricing engine computes with JavaScript numbers, which are IEEE 754 binary64
  values. A finite value is modelled by the rational it denotes; negative zero, the two
  infinities and NaN are separate constructors. Every arithmetic operation computes the
  exact rational result and rounds it to the nearest binary64 value, ties to the value
  with an even significand, as the language prescribes. (\<open>Fin\<close> takes any rational;
  literals and the results of the operations are binary64 values.)
\<close>

datatype number = Fin rat | NegZero | Infinity | NegInfinity | NaN

definition pow2 :: "int \<Rightarrow> rat" where
  "pow2 e = 2 powi e"

text \<open>\<open>ilog2 x\<close> is the integer \<open>e\<close> with \<open>2^e \<le> x < 2^(e+1)\<close>, for positive \<open>x\<close>.\<close>

definition ilog2 :: "rat \<Rightarrow> int" where
  "ilog2 x =
     (let (p, q) = quotient_of x;
          d = int (floorlog 2 (nat p)) - int (floorlog 2 (nat q))
      in if pow2 d \<le> x then d else d - 1)"

definition round_half_even :: "rat \<Rightarrow> int" where
  "round_half_even y =
     (let f = \<lfloor>y\<rfloor>; r = y - of_int f
      in if r < 1 / 2 then f
         else if 1 / 2 < r then f + 1
         else if even f then f else f + 1)"

text \<open>
  Rounding of a magnitude: 53 significant bits, exponents from -1022 (below that the
  spacing stays that of the subnormal numbers) to 1023; \<open>None\<close> is overflow.
\<close>

definition fl_mag :: "rat \<Rightarrow> rat option" where
  "fl_mag m =
     (if m = 0 then Some 0
      else let e = max (ilog2 m) (- 1022);
               u = pow2 (e - 52);
               v = of_int (round_half_even (m / u)) * u
           in if pow2 1024 \<le> v then None else Some v)"

definition mk :: "bool \<Rightarrow> rat \<Rightarrow> number" where
  "mk s m =
     (case fl_mag m of
        None \<Rightarrow> if s then NegInfinity else Infinity
      | Some v \<Rightarrow> if v = 0 then (if s then NegZero else Fin 0)
                  else Fin (if s then - v else v))"

text \<open>A numeric literal of the source denotes the binary64 value nearest to it.\<close>

definition lit :: "rat \<Rightarrow> number" where
  "lit x = mk (x < 0) \<bar>x\<bar>"

fun sign_bit :: "number \<Rightarrow> bool" where
  "sign_bit (Fin x) = (x < 0)"
| "sign_bit NegZero = True"
| "sign_bit NegInfinity = True"
| "sign_bit Infinity = False"
| "sign_bit NaN = False"

fun mag :: "number \<Rightarrow> rat" where
  "mag (Fin x) = \<bar>x\<bar>"
| "mag _ = 0"

fun val :: "number \<Rightarrow> rat" where
  "val (Fin x) = x"
| "val _ = 0"

fun is_inf :: "number \<Rightarrow> bool" where
  "is_inf Infinity = True"
| "is_inf NegInfinity = True"
| "is_inf _ = False"

fun is_zero :: "number \<Rightarrow> bool" where
  "is_zero (Fin x) = (x = 0)"
| "is_zero NegZero = True"
| "is_zero _ = False"

definition inf :: "bool \<Rightarrow> number" where
  "inf s = (if s then NegInfinity else Infinity)"

definition zero :: "bool \<Rightarrow> number" where
  "zero s = (if s then NegZero else Fin 0)"

text \<open>The operators \<open>*\<close>, \<open>+\<close> and \<open>/\<close> on numbers.\<close>

definition num_mul :: "number \<Rightarrow> number \<Rightarrow> number" where
  "num_mul x y =
     (if x = NaN \<or> y = NaN then NaN
      else let s = (sign_bit x \<noteq> sign_bit y)
           in if is_inf x \<or> is_inf y
              then (if is_zero x \<or> is_zero y then NaN else inf s)
              else mk s (mag x * mag y))"

definition num_add :: "number \<Rightarrow> number \<Rightarrow> number" where
  "num_add x y =
     (if x = NaN \<or> y = NaN then NaN
      else if is_inf x then (if is_inf y \<and> x \<noteq> y then NaN else x)
      else if is_inf y then y
      else let r = val x + val y
           in if r = 0 then (if x = NegZero \<and> y = NegZero then NegZero else Fin 0)
              else mk (r < 0) \<bar>r\<bar>)"

definition num_div :: "number \<Rightarrow> number \<Rightarrow> number" where
  "num_div x y =
     (if x = NaN \<or> y = NaN then NaN
      else let s = (sign_bit x \<noteq> sign_bit y)
           in if is_inf x then (if is_inf y then NaN else inf s)
              else if is_inf y then zero s
              else if is_zero y then (if is_zero x then NaN else inf s)
              else mk s (mag x / mag y))"

text \<open>
  \<open>Math.round\<close>: the integral number closest to the argument, the one closer to
  +Infinity of two equally close; an argument in [-0.5, 0) gives negative zero.
\<close>

fun Math_round :: "number \<Rightarrow> number" where
  "Math_round (Fin v) =
     (let n = \<lfloor>v + 1 / 2\<rfloor> in if n = 0 \<and> v < 0 then NegZero else Fin (of_int n))"
| "Math_round x = x"

text \<open>The comparisons \<open>>=\<close>, \<open><\<close> and \<open>===\<close>: false as soon as an operand is NaN.\<close>

fun num_ge :: "number \<Rightarrow> number \<Rightarrow> bool" where
  "num_ge NaN _ = False"
| "num_ge _ NaN = False"
| "num_ge Infinity _ = True"
| "num_ge _ NegInfinity = True"
| "num_ge NegInfinity _ = False"
| "num_ge _ Infinity = False"
| "num_ge x y = (val y \<le> val x)"

fun num_lt :: "number \<Rightarrow> number \<Rightarrow> bool" where
  "num_lt NaN _ = False"
| "num_lt _ NaN = False"
| "num_lt _ NegInfinity = False"
| "num_lt Infinity _ = False"
| "num_lt NegInfinity _ = True"
| "num_lt _ Infinity = True"
| "num_lt x y = (val x < val y)"

definition num_eq :: "number \<Rightarrow> number \<Rightarrow> bool" where
  "num_eq x y =
     (x \<noteq> NaN \<and> y \<noteq> NaN \<and> (x = y \<or> (is_zero x \<and> is_zero y)))"

text \<open>
  What a read of a property of one of the constant tables gives: \<open>undefined\<close>, the
  table's own value, or, for a name that every object inherits from
  \<open>Object.prototype\<close>, the inherited value (a function, or for \<open>__proto__\<close> the
  prototype object), recorded by its name.
\<close>

datatype 'a property = Undefined | Own 'a | Inherited string

text \<open>
  In arithmetic \<open>undefined\<close>, a function and an object convert to NaN. \<open>undefined\<close>,
  both zeros and NaN are falsy; a function and an object are truthy.
\<close>

definition ToNumber :: "number property \<Rightarrow> number" where
  "ToNumber v = (case v of Undefined \<Rightarrow> NaN | Own x \<Rightarrow> x | Inherited n \<Rightarrow> NaN)"

definition truthy :: "number property \<Rightarrow> bool" where
  "truthy v =
     (case v of
        Undefined \<Rightarrow> False
      | Own x \<Rightarrow> \<not> is_zero x \<and> x \<noteq> NaN
      | Inherited n \<Rightarrow> True)"

text \<open>
  A value used as a property name is converted to a string: \<open>undefined\<close> to its name,
  a function to its source text (the function inherited as \<open>constructor\<close> is
  \<open>Object\<close>), the prototype object to \<open>[object Object]\<close>.
\<close>

definition ToPropertyKey :: "string property \<Rightarrow> string" where
  "ToPropertyKey v =
     (case v of
        Undefined \<Rightarrow> ''undefined''
      | Own s \<Rightarrow> s
      | Inherited n \<Rightarrow>
          if n = ''__proto__'' then ''[object Object]''
          else if n = ''constructor'' then ''function Object() { [native code] }''
          else ''function '' @ n @ ''() { [native code] }'')"


section \<open>Dates\<close>

text \<open>
  A \<open>Date\<close> holds a time value, the milliseconds since the epoch, or is invalid (as
  \<open>new Date(str)\<close> is for a string that is no date). \<open>getHours\<close> and \<open>getDay\<close>
  read the local time: the host's offset from UTC at a time value, \<open>tza\<close>, is a
  parameter of everything that reads a date. On an invalid date both return NaN.
\<close>

datatype Date = TimeValue int | InvalidDate

definition getHours :: "(int \<Rightarrow> int) \<Rightarrow> Date \<Rightarrow> number" where
  "getHours tza d =
     (case d of
        InvalidDate \<Rightarrow> NaN
      | TimeValue t \<Rightarrow> Fin (of_int (((t + tza t) div 3600000) mod 24)))"

definition getDay :: "(int \<Rightarrow> int) \<Rightarrow> Date \<Rightarrow> number" where
  "getDay tza d =
     (case d of
        InvalidDate \<Rightarrow> NaN
      | TimeValue t \<Rightarrow> Fin (of_int (((t + tza t) div 86400000 + 4) mod 7)))"

section \<open>Rate tables\<close>

text \<open>
  The constant objects of the shared module, as association lists from property name to
  value. The tables are plain object literals, so \<open>lookup\<close>, the read of a property by
  name, finds the table's own properties first, then the properties of
  \<open>Object.prototype\<close>, and gives \<open>undefined\<close> for any other name; \<open>const_of\<close> is a
  read with a fixed name that the table has.
\<close>

definition Object_prototype :: "string list" where
  "Object_prototype =
     [''constructor'', ''__defineGetter__'', ''__defineSetter__'', ''hasOwnProperty'',
      ''__lookupGetter__'', ''__lookupSetter__'', ''isPrototypeOf'',
      ''propertyIsEnumerable'', ''toString'', ''valueOf'', ''__proto__'',
      ''toLocaleString'']"

definition lookup :: "(string \<times> 'a) list \<Rightarrow> string \<Rightarrow> 'a property" where
  "lookup T k =
     (case map_of T k of
        Some v \<Rightarrow> Own v
      | None \<Rightarrow> if k \<in> set Object_prototype then Inherited k else Undefined)"

definition const_of :: "(string \<times> number) list \<Rightarrow> string \<Rightarrow> number" where
  "const_of T k = ToNumber (lookup T k)"

definition BASE_RATES :: "(string \<times> number) list" where
  "BASE_RATES = [(''TOP_TIER'', lit 15), (''MID_TIER'', lit 10), (''BOTTOM_TIER'', lit 5)]"

definition SLOT_MULTIPLIERS :: "(string \<times> number) list" where
  "SLOT_MULTIPLIERS = [(''TOP'', lit 2), (''MID'', lit (13 / 10)), (''BOTTOM'', lit 1)]"

definition GEO_MULTIPLIERS :: "(string \<times> number) list" where
  "GEO_MULTIPLIERS =
     [(''US'', lit (15 / 10)), (''UK'', lit (15 / 10)), (''DE'', lit (15 / 10)),
      (''CA'', lit (14 / 10)), (''AU'', lit (14 / 10)),
      (''IN'', lit (12 / 10)), (''BR'', lit (12 / 10)), (''MX'', lit (11 / 10)),
      (''FR'', lit (13 / 10)), (''IT'', lit (13 / 10)), (''ES'', lit (12 / 10)),
      (''NG'', lit (8 / 10)), (''KE'', lit (7 / 10)), (''GH'', lit (7 / 10)),
      (''ZA'', lit (9 / 10)), (''EG'', lit (8 / 10)),
      (''DEFAULT'', lit 1)]"

definition TIME_MULTIPLIERS :: "(string \<times> number) list" where
  "TIME_MULTIPLIERS =
     [(''PRIME_TIME'', lit (14 / 10)), (''BUSINESS_HOURS'', lit (12 / 10)),
      (''EVENING'', lit (11 / 10)), (''MORNING'', lit 1),
      (''LATE_NIGHT'', lit (6 / 10)), (''WEEKEND'', lit (11 / 10))]"

definition FORMAT_MULTIPLIERS :: "(string \<times> number) list" where
  "FORMAT_MULTIPLIERS =
     [(''VIDEO'', lit (15 / 10)), (''IMAGE'', lit 1), (''TEXT'', lit (8 / 10)),
      (''AI_GENERATED_BONUS'', lit 10)]"

definition DURATION_DISCOUNTS :: "(string \<times> number) list" where
  "DURATION_DISCOUNTS =
     [(''1'', lit 1), (''3'', lit (95 / 100)), (''7'', lit (90 / 100)),
      (''14'', lit (85 / 100)), (''30'', lit (80 / 100))]"

definition DEMAND_MULTIPLIERS :: "(string \<times> number) list" where
  "DEMAND_MULTIPLIERS =
     [(''VERY_HIGH'', lit (18 / 10)), (''HIGH'', lit (14 / 10)), (''MEDIUM'', lit 1),
      (''LOW'', lit (8 / 10)), (''VERY_LOW'', lit (6 / 10))]"

definition AD_SLOT_TYPES :: "(string \<times> string) list" where
  "AD_SLOT_TYPES =
     [(''TOP_CENTER'', ''top_center''), (''TOP_LEFT'', ''top_left''),
      (''TOP_RIGHT'', ''top_right''), (''MID_CENTER'', ''mid_center''),
      (''MID_LEFT'', ''mid_left''), (''MID_RIGHT'', ''mid_right''),
      (''BOTTOM_CENTER'', ''bottom_center''), (''BOTTOM_LEFT'', ''bottom_left''),
      (''BOTTOM_RIGHT'', ''bottom_right''), (''MOBILE_BANNER'', ''mobile_banner''),
      (''MOBILE_INTERSTITIAL'', ''mobile_interstitial'')]"

definition SLOT_TIER_MAPPING :: "(string \<times> string) list" where
  "SLOT_TIER_MAPPING =
     [(''top_center'', ''TOP''), (''top_left'', ''TOP''), (''top_right'', ''TOP''),
      (''mid_center'', ''MID''), (''mid_left'', ''MID''), (''mid_right'', ''MID''),
      (''bottom_center'', ''BOTTOM''), (''bottom_left'', ''BOTTOM''),
      (''bottom_right'', ''BOTTOM''), (''mobile_banner'', ''BOTTOM''),
      (''mobile_interstitial'', ''MID'')]"

section \<open>The pricing engine\<close>

record PricingRequest =
  slotType :: string
  duration :: number
  countryCode :: string
  startDate :: Date
  adFormat :: string
  isAiGenerated :: "bool option"

record PricingBreakdown =
  baseRate :: number
  slotMultiplier :: "number property"
  geoMultiplier :: "number property"
  timeMultiplier :: number
  formatMultiplier :: "number property"
  durationDiscount :: number
  demandMultiplier :: number
  aiGeneratedBonus :: number
  subtotal :: number
  total :: number
  dailyRate :: number

record PricingResult =
  result_total :: number
  result_dailyRate :: number
  breakdown :: PricingBreakdown
  currency :: string

text \<open>
  The \<open>switch\<close> on the tier; its \<open>default\<close> branch also takes an undefined tier and
  an inherited value.
\<close>

definition getBaseRate :: "string property \<Rightarrow> number" where
  "getBaseRate slotTier =
     (if slotTier = Own ''TOP'' then const_of BASE_RATES ''TOP_TIER''
      else if slotTier = Own ''MID'' then const_of BASE_RATES ''MID_TIER''
      else if slotTier = Own ''BOTTOM'' then const_of BASE_RATES ''BOTTOM_TIER''
      else const_of BASE_RATES ''BOTTOM_TIER'')"

text \<open>\<open>GEO_MULTIPLIERS[countryCode] || GEO_MULTIPLIERS.DEFAULT\<close>: the first value when truthy.\<close>

definition getGeoMultiplier :: "string \<Rightarrow> number property" where
  "getGeoMultiplier cc =
     (if truthy (lookup GEO_MULTIPLIERS cc) then lookup GEO_MULTIPLIERS cc
      else lookup GEO_MULTIPLIERS ''DEFAULT'')"

definition getTimeMultiplier :: "(int \<Rightarrow> int) \<Rightarrow> Date \<Rightarrow> number" where
  "getTimeMultiplier tza d =
     (let hour = getHours tza d; dayOfWeek = getDay tza d
      in if num_eq dayOfWeek (lit 0) \<or> num_eq dayOfWeek (lit 6)
         then const_of TIME_MULTIPLIERS ''WEEKEND''
         else if num_ge hour (lit 18) \<and> num_lt hour (lit 22)
         then const_of TIME_MULTIPLIERS ''PRIME_TIME''
         else if num_ge hour (lit 9) \<and> num_lt hour (lit 17)
         then const_of TIME_MULTIPLIERS ''BUSINESS_HOURS''
         else if num_ge hour (lit 17) \<and> num_lt hour (lit 21)
         then const_of TIME_MULTIPLIERS ''EVENING''
         else if num_ge hour (lit 6) \<and> num_lt hour (lit 9)
         then const_of TIME_MULTIPLIERS ''MORNING''
         else const_of TIME_MULTIPLIERS ''LATE_NIGHT'')"

definition getDurationDiscount :: "number \<Rightarrow> number" where
  "getDurationDiscount d =
     (if num_ge d (lit 30) then const_of DURATION_DISCOUNTS ''30''
      else if num_ge d (lit 14) then const_of DURATION_DISCOUNTS ''14''
      else if num_ge d (lit 7) then const_of DURATION_DISCOUNTS ''7''
      else if num_ge d (lit 3) then const_of DURATION_DISCOUNTS ''3''
      else const_of DURATION_DISCOUNTS ''1'')"

definition getDemandMultiplier :: "(int \<Rightarrow> int) \<Rightarrow> string \<Rightarrow> Date \<Rightarrow> number" where
  "getDemandMultiplier tza st d =
     (let hour = getHours tza d; dayOfWeek = getDay tza d
      in if lookup AD_SLOT_TYPES ''TOP_CENTER'' = Own st
            \<and> num_ge hour (lit 18) \<and> num_lt hour (lit 22)
         then const_of DEMAND_MULTIPLIERS ''VERY_HIGH''
         else if lookup AD_SLOT_TYPES ''TOP_CENTER'' = Own st
            \<and> num_ge hour (lit 9) \<and> num_lt hour (lit 17)
         then const_of DEMAND_MULTIPLIERS ''HIGH''
         else if num_eq dayOfWeek (lit 0) \<or> num_eq dayOfWeek (lit 6)
         then const_of DEMAND_MULTIPLIERS ''MEDIUM''
         else const_of DEMAND_MULTIPLIERS ''MEDIUM'')"

definition calculatePrice :: "(int \<Rightarrow> int) \<Rightarrow> 'a PricingRequest_scheme \<Rightarrow> PricingResult" where
  "calculatePrice tza request =
     (let slotTier = lookup SLOT_TIER_MAPPING (slotType request);
          baseRate = getBaseRate slotTier;
          slotMultiplier = lookup SLOT_MULTIPLIERS (ToPropertyKey slotTier);
          geoMultiplier = getGeoMultiplier (countryCode request);
          timeMultiplier = getTimeMultiplier tza (startDate request);
          formatMultiplier = lookup FORMAT_MULTIPLIERS (adFormat request);
          durationDiscount = getDurationDiscount (duration request);
          demandMultiplier = getDemandMultiplier tza (slotType request) (startDate request);
          aiGeneratedBonus =
            (if isAiGenerated request = Some True
             then const_of FORMAT_MULTIPLIERS ''AI_GENERATED_BONUS'' else lit 0);
          subtotal =
            num_mul (num_mul (num_mul (num_mul (num_mul (num_mul (num_mul
              baseRate (ToNumber slotMultiplier)) (ToNumber geoMultiplier)) timeMultiplier)
              (ToNumber formatMultiplier)) durationDiscount) demandMultiplier)
              (duration request);
          total = num_add subtotal aiGeneratedBonus;
          dailyRate = num_div total (duration request);
          breakdown =
            \<lparr>baseRate = baseRate, slotMultiplier = slotMultiplier,
             geoMultiplier = geoMultiplier, timeMultiplier = timeMultiplier,
             formatMultiplier = formatMultiplier, durationDiscount = durationDiscount,
             demandMultiplier = demandMultiplier, aiGeneratedBonus = aiGeneratedBonus,
             subtotal = subtotal, total = total, dailyRate = dailyRate\<rparr>
      in \<lparr>result_total = num_div (Math_round (num_mul total (lit 100))) (lit 100),
          result_dailyRate = num_div (Math_round (num_mul dailyRate (lit 100))) (lit 100),
          breakdown = breakdown,
          currency = ''USD''\<rparr>)"


text \<open>\<open>calculateBulkPricing\<close> and \<open>getQuickEstimate\<close>; the latter reads the clock.\<close>

definition calculateBulkPricing :: "(int \<Rightarrow> int) \<Rightarrow> 'a PricingRequest_scheme list \<Rightarrow> PricingResult list" where
  "calculateBulkPricing tza requests = map (calculatePrice tza) requests"

definition getQuickEstimate :: "(int \<Rightarrow> int) \<Rightarrow> Date \<Rightarrow> string \<Rightarrow> number \<Rightarrow> string \<Rightarrow> number" where
  "getQuickEstimate tza now st d cc =
     result_total (calculatePrice tza
       \<lparr>slotType = st, duration = d, countryCode = cc, startDate = now,
        adFormat = ''IMAGE'', isAiGenerated = Some False\<rparr>)"

section \<open>The route \<open>POST /calculate\<close>\<close>

text \<open>
  The request body is what the JSON body parser left in \<open>req.body\<close>: a JSON value, or
  nothing (\<open>None\<close>, \<open>undefined\<close>). An object is the list of its properties, one entry
  for each name; a string is the list of its code units.
\<close>

datatype json =
  JNull | JBool bool | JNum number | JStr string | JArr "json list"
  | JObj "(string \<times> json) list"

text \<open>
  The validation schema reports issues, each with the path of the offending property
  (the empty string for the body itself). The schema checks every property and
  collects the issues of all of them; a body that is no object is one issue.
\<close>

datatype ZodIssue =
  invalid_type string | too_small string | too_big string | invalid_enum_value string

definition z_string :: "string \<Rightarrow> json option \<Rightarrow> ZodIssue list + string" where
  "z_string path v = (case v of Some (JStr s) \<Rightarrow> Inr s | _ \<Rightarrow> Inl [invalid_type path])"

definition z_number_min_max :: "string \<Rightarrow> number \<Rightarrow> number \<Rightarrow> json option \<Rightarrow> ZodIssue list + number" where
  "z_number_min_max path lo hi v =
     (case v of
        Some (JNum x) \<Rightarrow>
          if x = NaN then Inl [invalid_type path]
          else if num_lt x lo then Inl [too_small path]
          else if num_lt hi x then Inl [too_big path]
          else Inr x
      | _ \<Rightarrow> Inl [invalid_type path])"

definition z_string_length :: "string \<Rightarrow> nat \<Rightarrow> json option \<Rightarrow> ZodIssue list + string" where
  "z_string_length path n v =
     (case v of
        Some (JStr s) \<Rightarrow>
          if n < length s then Inl [too_big path]
          else if length s < n then Inl [too_small path]
          else Inr s
      | _ \<Rightarrow> Inl [invalid_type path])"

definition z_string_transform :: "string \<Rightarrow> (string \<Rightarrow> 'a) \<Rightarrow> json option \<Rightarrow> ZodIssue list + 'a" where
  "z_string_transform path f v =
     (case v of Some (JStr s) \<Rightarrow> Inr (f s) | _ \<Rightarrow> Inl [invalid_type path])"

definition z_enum :: "string \<Rightarrow> string list \<Rightarrow> json option \<Rightarrow> ZodIssue list + string" where
  "z_enum path options v =
     (case v of
        Some (JStr s) \<Rightarrow> if s \<in> set options then Inr s else Inl [invalid_enum_value path]
      | _ \<Rightarrow> Inl [invalid_type path])"

definition z_boolean_optional_default :: "string \<Rightarrow> bool \<Rightarrow> json option \<Rightarrow> ZodIssue list + bool" where
  "z_boolean_optional_default path dflt v =
     (case v of
        None \<Rightarrow> Inr dflt
      | Some (JBool b) \<Rightarrow> Inr b
      | _ \<Rightarrow> Inl [invalid_type path])"

definition issues_of :: "ZodIssue list + 'a \<Rightarrow> ZodIssue list" where
  "issues_of r = (case r of Inl is \<Rightarrow> is | Inr _ \<Rightarrow> [])"

text \<open>
  What the handler needs from its host: the local time zone, the \<open>Date\<close> constructor on
  a string, and the rendering of a validation error's issues as its message.
\<close>

record host =
  LocalTZA :: "int \<Rightarrow> int"
  new_Date :: "string \<Rightarrow> Date"
  ZodError_message :: "ZodIssue list \<Rightarrow> string"

definition pricingRequestSchema_parse :: "host \<Rightarrow> json option \<Rightarrow> ZodIssue list + PricingRequest" where
  "pricingRequestSchema_parse h data =
     (case data of
        Some (JObj props) \<Rightarrow>
          (let f1 = z_string ''slotType'' (map_of props ''slotType'');
               f2 = z_number_min_max ''duration'' (lit 1) (lit 30) (map_of props ''duration'');
               f3 = z_string_length ''countryCode'' 2 (map_of props ''countryCode'');
               f4 = z_string_transform ''startDate'' (new_Date h) (map_of props ''startDate'');
               f5 = z_enum ''adFormat'' [''IMAGE'', ''VIDEO'', ''TEXT''] (map_of props ''adFormat'');
               f6 = z_boolean_optional_default ''isAiGenerated'' False
                      (map_of props ''isAiGenerated'')
           in case f1 of Inr v1 \<Rightarrow> (case f2 of Inr v2 \<Rightarrow> (case f3 of Inr v3 \<Rightarrow>
                (case f4 of Inr v4 \<Rightarrow> (case f5 of Inr v5 \<Rightarrow> (case f6 of Inr v6 \<Rightarrow>
                   Inr \<lparr>slotType = v1, duration = v2, countryCode = v3, startDate = v4,
                        adFormat = v5, isAiGenerated = Some v6\<rparr>
                 | Inl i6 \<Rightarrow> Inl i6)
                 | Inl i5 \<Rightarrow> Inl (i5 @ issues_of f6))
                 | Inl i4 \<Rightarrow> Inl (i4 @ issues_of f5 @ issues_of f6))
                 | Inl i3 \<Rightarrow> Inl (i3 @ issues_of f4 @ issues_of f5 @ issues_of f6))
                 | Inl i2 \<Rightarrow> Inl (i2 @ issues_of f3 @ issues_of f4 @ issues_of f5 @ issues_of f6))
                 | Inl i1 \<Rightarrow>
                     Inl (i1 @ issues_of f2 @ issues_of f3 @ issues_of f4 @ issues_of f5
                          @ issues_of f6))
      | _ \<Rightarrow> Inl [invalid_type []])"

text \<open>
  The response: the status code (200 unless \<open>res.status\<close> sets another) and the body,
  which is \<open>{success: true, ...result}\<close> or \<open>{success: false, error}\<close>.
\<close>

datatype ResponseBody = SuccessBody PricingResult | ErrorBody string

record Response =
  status :: nat
  body :: ResponseBody

text \<open>
  The handler: \<open>parse\<close> throws the validation error, which the \<open>catch\<close> answers with
  status 400 and the error's message; nothing after the validation throws. The line
  that the \<open>catch\<close> writes to the console is left out.
\<close>

definition calculate_handler :: "host \<Rightarrow> json option \<Rightarrow> Response" where
  "calculate_handler h req_body =
     (case pricingRequestSchema_parse h req_body of
        Inl issues \<Rightarrow> \<lparr>status = 400, body = ErrorBody (ZodError_message h issues)\<rparr>
      | Inr validatedData \<Rightarrow>
          (let pricingRequest =
                 \<lparr>slotType = slotType validatedData, duration = duration validatedData,
                  countryCode = countryCode validatedData,
                  startDate = startDate validatedData,
                  adFormat = adFormat validatedData,
                  isAiGenerated = isAiGenerated validatedData\<rparr>;
               result = calculatePrice (LocalTZA h) pricingRequest
           in \<lparr>status = 200, body = SuccessBody result\<rparr>))"

section \<open>The referral engine: \<open>processRewards\<close>\<close>

datatype RewardType = credit | discount | free_slot

datatype RewardStatus = pending | approved | paid | expired

record ReferralReward =
  reward_id :: string
  referrerId :: string
  refereeId :: string
  referralCodeId :: string
  rewardType :: RewardType
  rewardValue :: number
  reward_status :: RewardStatus
  createdAt :: Date
  paidAt :: "Date option"

text \<open>
  The persistence methods are asynchronous and awaited one after the other, so each is
  a function from the state of the outside world to its outcome and the new state; the
  outcome \<open>Inl msg\<close> is a rejected promise whose reason is an error with that message.
  \<open>clock\<close> is \<open>new Date()\<close>.
\<close>

record 'w persistence =
  findReward :: "string \<Rightarrow> 'w \<Rightarrow> (string + ReferralReward option) \<times> 'w"
  updateReward :: "ReferralReward \<Rightarrow> 'w \<Rightarrow> (string + unit) \<times> 'w"
  addUserCredit :: "string \<Rightarrow> number \<Rightarrow> 'w \<Rightarrow> (string + unit) \<times> 'w"
  createDiscountCoupon :: "string \<Rightarrow> number \<Rightarrow> 'w \<Rightarrow> (string + unit) \<times> 'w"
  grantFreeAdSlot :: "string \<Rightarrow> 'w \<Rightarrow> (string + unit) \<times> 'w"
  clock :: "'w \<Rightarrow> Date"

text \<open>The methods as the class has them: mock implementations that do nothing.\<close>

definition mock_persistence :: "Date \<Rightarrow> 'w persistence" where
  "mock_persistence now =
     \<lparr>findReward = (\<lambda>rewardId w. (Inr None, w)),
      updateReward = (\<lambda>reward w. (Inr (), w)),
      addUserCredit = (\<lambda>userId amount w. (Inr (), w)),
      createDiscountCoupon = (\<lambda>userId percentage w. (Inr (), w)),
      grantFreeAdSlot = (\<lambda>userId w. (Inr (), w)),
      clock = (\<lambda>w. now)\<rparr>"

text \<open>
  One turn of the loop: \<open>None\<close> when the reward was processed, the message pushed on
  \<open>errors\<close> when it failed.
\<close>

definition processReward :: "'w persistence \<Rightarrow> string \<Rightarrow> 'w \<Rightarrow> string option \<times> 'w" where
  "processReward P rewardId w =
     (case findReward P rewardId w of
        (Inl msg, w1) \<Rightarrow> (Some (''Failed to process reward '' @ rewardId @ '': '' @ msg), w1)
      | (Inr None, w1) \<Rightarrow> (Some (''Reward '' @ rewardId @ '' not found''), w1)
      | (Inr (Some reward), w1) \<Rightarrow>
          if reward_status reward \<noteq> pending
          then (Some (''Reward '' @ rewardId @ '' is not in pending status''), w1)
          else
            (case (case rewardType reward of
                     credit \<Rightarrow> addUserCredit P (referrerId reward) (rewardValue reward) w1
                   | discount \<Rightarrow>
                       createDiscountCoupon P (referrerId reward) (rewardValue reward) w1
                   | free_slot \<Rightarrow> grantFreeAdSlot P (referrerId reward) w1) of
               (Inl msg, w2) \<Rightarrow>
                 (Some (''Failed to process reward '' @ rewardId @ '': '' @ msg), w2)
             | (Inr _, w2) \<Rightarrow>
                 (case updateReward P
                         (reward\<lparr>reward_status := paid, paidAt := Some (clock P w2)\<rparr>) w2 of
                    (Inl msg, w3) \<Rightarrow>
                      (Some (''Failed to process reward '' @ rewardId @ '': '' @ msg), w3)
                  | (Inr _, w3) \<Rightarrow> (None, w3))))"

record RewardsSummary =
  processed :: nat
  failed :: nat
  errors :: "string list"

fun processRewards_loop :: "'w persistence \<Rightarrow> string list \<Rightarrow> RewardsSummary \<Rightarrow> 'w \<Rightarrow> RewardsSummary \<times> 'w" where
  "processRewards_loop P [] acc w = (acc, w)"
| "processRewards_loop P (rewardId # rest) acc w =
     (case processReward P rewardId w of
        (None, w') \<Rightarrow> processRewards_loop P rest (acc\<lparr>processed := processed acc + 1\<rparr>) w'
      | (Some msg, w') \<Rightarrow>
          processRewards_loop P rest
            (acc\<lparr>errors := errors acc @ [msg], failed := failed acc + 1\<rparr>) w')"

definition processRewards :: "'w persistence \<Rightarrow> string list \<Rightarrow> 'w \<Rightarrow> RewardsSummary \<times> 'w" where
  "processRewards P rewardIds w =
     processRewards_loop P rewardIds \<lparr>processed = 0, failed = 0, errors = []\<rparr> w"

section \<open>Sample inputs\<close>

text \<open>
  A host on UTC, and requests used below: the time value 208800000 is Saturday
  1970-01-03 10:00 UTC, and 68400000 is Thursday 1970-01-01 19:00 UTC.
\<close>

definition UTC :: "int \<Rightarrow> int" where
  "UTC t = 0"

text \<open>A host nine hours ahead of UTC all year, as Tokyo is.\<close>

definition TOKYO :: "int \<Rightarrow> int" where
  "TOKYO t = 32400000"

definition weekend_request :: "rat \<Rightarrow> PricingRequest" where
  "weekend_request d =
     \<lparr>slotType = ''top_center'', duration = lit d, countryCode = ''US'',
      startDate = TimeValue 208800000, adFormat = ''IMAGE'', isAiGenerated = Some False\<rparr>"

definition evening_request :: "string \<Rightarrow> bool \<Rightarrow> PricingRequest" where
  "evening_request st ai =
     \<lparr>slotType = st, duration = lit 3, countryCode = ''KE'',
      startDate = TimeValue 68400000, adFormat = ''VIDEO'', isAiGenerated = Some ai\<rparr>"


text \<open>The countries the geographic table lists: its names other than \<open>DEFAULT\<close>.\<close>

definition listed_countries :: "string list" where
  "listed_countries = filter (\<lambda>k. k \<noteq> ''DEFAULT'') (map fst GEO_MULTIPLIERS)"

text \<open>
  A host on UTC whose \<open>Date\<close> constructor knows one string, and a body that passes the
  validation.
\<close>

definition sample_host :: host where
  "sample_host =
     \<lparr>LocalTZA = UTC,
      new_Date = (\<lambda>s. if s = ''1970-01-01T19:00:00.000Z'' then TimeValue 68400000
                     else InvalidDate),
      ZodError_message = (\<lambda>issues. ''validation failed'')\<rparr>"

definition sample_body :: json where
  "sample_body =
     JObj [(''slotType'', JStr ''top_left''), (''duration'', JNum (Fin 3)),
           (''countryCode'', JStr ''KE''), (''startDate'', JStr ''1970-01-01T19:00:00.000Z''),
           (''adFormat'', JStr ''VIDEO''), (''isAiGenerated'', JBool True)]"

section \<open>Facts about the number model\<close>


lemma pow2_pos: "0 < pow2 e"
  by (simp add: pow2_def)

lemma pow2_strict_mono: "a < b \<Longrightarrow> pow2 a < pow2 b"
  unfolding pow2_def by (rule power_int_strict_increasing) simp_all

lemma pow2_mono: "a \<le> b \<Longrightarrow> pow2 a \<le> pow2 b"
  unfolding pow2_def by (rule power_int_increasing) simp_all

lemma pow2_diff: "pow2 (a - b) = pow2 a / pow2 b"
  unfolding pow2_def by (simp add: power_int_diff)

lemma pow2_of_nat: "pow2 (int n) = 2 ^ n"
  by (simp add: pow2_def)

lemma bit_bounds:
  assumes "0 < p"
  shows "pow2 (int (floorlog 2 (nat p)) - 1) \<le> of_int p"
    and "of_int p < pow2 (int (floorlog 2 (nat p)))"
proof -
  let ?a = "floorlog 2 (nat p)"
  from assms have np: "0 < nat p" by simp
  have b: "2 ^ (?a - 1) \<le> nat p \<and> nat p < 2 ^ ?a"
    by (rule floorlog_bounds [OF np]) simp
  have a1: "1 \<le> ?a"
    using np by (simp add: floorlog_def)
  have "(2::rat) ^ (?a - 1) = of_nat (2 ^ (?a - 1))" by simp
  also have "\<dots> \<le> of_nat (nat p)" using b by (simp only: of_nat_le_iff)
  also have "\<dots> = of_int p" using assms by simp
  finally have "(2::rat) ^ (?a - 1) \<le> of_int p" .
  moreover have "int ?a - 1 = int (?a - 1)" using a1 by simp
  ultimately show "pow2 (int ?a - 1) \<le> of_int p"
    by (simp only: pow2_of_nat)
  have "(of_int p :: rat) = of_nat (nat p)" using assms by simp
  also have "\<dots> < of_nat (2 ^ ?a)" using b by (simp only: of_nat_less_iff)
  also have "\<dots> = 2 ^ ?a" by simp
  finally show "of_int p < pow2 (int ?a)" by (simp only: pow2_of_nat)
qed

lemma ilog2_bounds:
  assumes "0 < x"
  shows "pow2 (ilog2 x) \<le> x \<and> x < pow2 (ilog2 x + 1)"
proof -
  obtain p q where pq: "quotient_of x = (p, q)" by (cases "quotient_of x")
  then have q: "0 < q" by (rule quotient_of_denom_pos)
  from pq have x: "x = of_int p / of_int q" by (rule quotient_of_div)
  with assms q have p: "0 < p" by (simp add: zero_less_divide_iff)
  let ?a = "int (floorlog 2 (nat p))" and ?b = "int (floorlog 2 (nat q))"
  let ?d = "?a - ?b"
  note bp = bit_bounds [OF p] and bq = bit_bounds [OF q]
  have qpos: "(0::rat) < of_int q" using q by simp
  have "x < pow2 ?a / of_int q"
    unfolding x using bp(2) qpos by (simp add: divide_strict_right_mono)
  also have "\<dots> \<le> pow2 ?a / pow2 (?b - 1)"
    using bq(1) pow2_pos [of ?a] pow2_pos [of "?b - 1"]
    by (simp add: frac_le)
  also have "\<dots> = pow2 (?d + 1)"
    by (simp add: pow2_diff [symmetric] algebra_simps)
  finally have up: "x < pow2 (?d + 1)" .
  have "pow2 (?d - 1) = pow2 (?a - 1) / pow2 ?b"
    by (simp add: pow2_diff [symmetric] algebra_simps)
  also have "\<dots> < pow2 (?a - 1) / of_int q"
    using bq(2) pow2_pos [of "?a - 1"] qpos
    by (simp add: frac_less2)
  also have "\<dots> \<le> x"
    unfolding x using bp(1) qpos by (simp add: divide_right_mono)
  finally have lo: "pow2 (?d - 1) < x" .
  have il: "ilog2 x = (if pow2 ?d \<le> x then ?d else ?d - 1)"
    by (simp add: ilog2_def pq Let_def)
  show ?thesis
  proof (cases "pow2 ?d \<le> x")
    case True
    with il up show ?thesis by simp
  next
    case False
    with il lo show ?thesis by simp
  qed
qed

lemma ilog2_unique:
  assumes "pow2 e \<le> x" and "x < pow2 (e + 1)"
  shows "ilog2 x = e"
proof -
  have x: "0 < x" using assms(1) pow2_pos [of e] by simp
  note b = ilog2_bounds [OF x]
  have "\<not> e < ilog2 x"
  proof
    assume "e < ilog2 x"
    then have "pow2 (e + 1) \<le> pow2 (ilog2 x)" by (intro pow2_mono) simp
    with b assms(2) show False by simp
  qed
  moreover have "\<not> ilog2 x < e"
  proof
    assume "ilog2 x < e"
    then have "pow2 (ilog2 x + 1) \<le> pow2 e" by (intro pow2_mono) simp
    with b assms(1) show False by simp
  qed
  ultimately show ?thesis by simp
qed


lemma pow2_Suc: "pow2 (e + 1) = 2 * pow2 e"
  unfolding pow2_def by (simp add: power_int_add)

lemma ilog2_base: "1 \<le> x \<Longrightarrow> x < 2 \<Longrightarrow> ilog2 x = 0"
  by (rule ilog2_unique) (simp_all add: pow2_def)

lemma ilog2_ge2:
  assumes "2 \<le> x"
  shows "ilog2 x = ilog2 (x / 2) + 1"
proof (rule ilog2_unique)
  have h: "0 < x / 2" using assms by simp
  note b = ilog2_bounds [OF h]
  from b show "pow2 (ilog2 (x / 2) + 1) \<le> x" by (simp add: pow2_Suc)
  have "pow2 (ilog2 (x / 2) + 1 + 1) = 2 * pow2 (ilog2 (x / 2) + 1)"
    by (rule pow2_Suc)
  with b show "x < pow2 (ilog2 (x / 2) + 1 + 1)" by simp
qed

lemma ilog2_lt1:
  assumes "0 < x" and "x < 1"
  shows "ilog2 x = ilog2 (2 * x) - 1"
proof (rule ilog2_unique)
  have h: "0 < 2 * x" using assms by simp
  note b = ilog2_bounds [OF h]
  have e: "pow2 (ilog2 (2 * x)) = 2 * pow2 (ilog2 (2 * x) - 1)"
    using pow2_Suc [of "ilog2 (2 * x) - 1"] by simp
  from b e show "pow2 (ilog2 (2 * x) - 1) \<le> x" by simp
  have "pow2 (ilog2 (2 * x) - 1 + 1) = pow2 (ilog2 (2 * x))" by simp
  moreover have "pow2 (ilog2 (2 * x) + 1) = 2 * pow2 (ilog2 (2 * x))" by (rule pow2_Suc)
  ultimately show "x < pow2 (ilog2 (2 * x) - 1 + 1)" using b by simp
qed

lemma floor_rat_numeral:
  "\<lfloor>(numeral a / numeral b :: rat)\<rfloor> = numeral a div numeral b"
  by (metis floor_divide_of_int_eq of_int_numeral)


lemma round_half_even_bounds:
  "\<lfloor>y\<rfloor> \<le> round_half_even y \<and> round_half_even y \<le> \<lfloor>y\<rfloor> + 1"
  by (simp add: round_half_even_def Let_def)

lemma fl_mag_normal:
  assumes "0 < m" and lo: "- 1022 \<le> ilog2 m" and hi: "ilog2 m \<le> 1022"
  shows "fl_mag m =
           Some (of_int (round_half_even (m / pow2 (ilog2 m - 52))) * pow2 (ilog2 m - 52))"
    and "0 < of_int (round_half_even (m / pow2 (ilog2 m - 52))) * pow2 (ilog2 m - 52)"
proof -
  let ?e = "ilog2 m"
  let ?u = "pow2 (?e - 52)"
  let ?n = "round_half_even (m / ?u)"
  note b = ilog2_bounds [OF assms(1)]
  have u: "0 < ?u" by (rule pow2_pos)
  have eu: "pow2 ?e = pow2 52 * ?u"
    using pow2_diff [of ?e 52] pow2_pos [of 52] by (simp add: field_simps)
  have eu1: "pow2 (?e + 1) = pow2 53 * ?u"
    using pow2_diff [of "?e + 1" 53] pow2_pos [of 53] by (simp add: field_simps)
  have y1: "pow2 52 \<le> m / ?u" using b u eu by (simp add: pos_le_divide_eq)
  have y2: "m / ?u < pow2 53" using b u eu1 by (simp add: pos_divide_less_eq)
  have p52: "pow2 52 = of_int (2 ^ 52)" and p53: "pow2 53 = of_int (2 ^ 53)"
    by (simp_all add: pow2_def)
  have f1: "2 ^ 52 \<le> \<lfloor>m / ?u\<rfloor>" using y1 unfolding p52 by (simp only: le_floor_iff)
  have f2: "\<lfloor>m / ?u\<rfloor> < 2 ^ 53" using y2 unfolding p53 by (simp only: floor_less_iff)
  note rb = round_half_even_bounds [of "m / ?u"]
  have n1: "2 ^ 52 \<le> ?n" using f1 rb by linarith
  have n2: "?n \<le> 2 ^ 53" using f2 rb by linarith
  have npos: "(0::rat) < of_int ?n" using n1 by simp
  show pos: "0 < of_int ?n * ?u" using npos u by simp
  have "of_int ?n \<le> (of_int (2 ^ 53) :: rat)" using n2 by (simp only: of_int_le_iff)
  then have "of_int ?n * ?u \<le> pow2 53 * ?u" using u unfolding p53 by (simp add: mult_right_mono)
  also have "\<dots> = pow2 (?e + 1)" by (simp add: eu1)
  also have "\<dots> \<le> pow2 1023" using hi by (intro pow2_mono) simp
  also have "\<dots> < pow2 1024" by (intro pow2_strict_mono) simp
  finally have lt: "of_int ?n * ?u < pow2 1024" .
  have mx: "max ?e (- 1022) = ?e" using lo by simp
  from assms(1) lt show "fl_mag m = Some (of_int ?n * ?u)"
    by (simp add: fl_mag_def mx Let_def)
qed

lemma mk_normal:
  assumes "0 < m" and "- 1022 \<le> ilog2 m" and "ilog2 m \<le> 1022"
  shows "mk s m =
           Fin (if s
                then - (of_int (round_half_even (m / pow2 (ilog2 m - 52))) * pow2 (ilog2 m - 52))
                else of_int (round_half_even (m / pow2 (ilog2 m - 52))) * pow2 (ilog2 m - 52))"
proof -
  let ?v = "of_int (round_half_even (m / pow2 (ilog2 m - 52))) * pow2 (ilog2 m - 52)"
  note f = fl_mag_normal [OF assms]
  have nz: "?v \<noteq> 0"
  proof
    assume "?v = 0"
    with f(2) show False by (simp only: less_irrefl)
  qed
  show ?thesis
    unfolding mk_def f(1) option.case using nz by (simp only: if_False)
qed

lemma mk_zero: "mk s 0 = (if s then NegZero else Fin 0)"
  by (simp add: mk_def fl_mag_def)

lemmas float_eval = num_mul_def num_add_def num_div_def mk_normal mk_zero lit_def
  ilog2_base ilog2_ge2 ilog2_lt1 pow2_def round_half_even_def Let_def inf_def zero_def floor_rat_numeral

section \<open>Facts about the rate tables\<close>


lemma lookup_Own_iff: "lookup T k = Own v \<longleftrightarrow> map_of T k = Some v"
  by (simp add: lookup_def split: option.split)

lemma lookup_Undefined_iff:
  "lookup T k = Undefined \<longleftrightarrow> map_of T k = None \<and> k \<notin> set Object_prototype"
  by (simp add: lookup_def split: option.split)

lemma lookup_Inherited_iff:
  "lookup T k = Inherited n \<longleftrightarrow> map_of T k = None \<and> k \<in> set Object_prototype \<and> n = k"
  by (auto simp: lookup_def split: option.split)



lemma NaN_propagates:
  "num_mul NaN y = NaN" "num_mul x NaN = NaN" "num_add NaN y = NaN" "num_add x NaN = NaN"
  "num_div NaN y = NaN" "num_div x NaN = NaN" "Math_round NaN = NaN"
  by (simp_all add: num_mul_def num_add_def num_div_def)

lemma lit_0: "lit 0 = Fin 0"
  by (simp add: lit_def mk_def fl_mag_def)

lemma lit_1: "lit 1 = Fin 1" by (simp add: float_eval)
lemma lit_6: "lit 6 = Fin 6" by (simp add: float_eval)
lemma lit_10: "lit 10 = Fin 10" by (simp add: float_eval)
lemma lit_100: "lit 100 = Fin 100" by (simp add: float_eval)

lemma lit_pos:
  assumes "pow2 (- 1022) \<le> x" and "x < pow2 1023"
  shows "\<exists>v. 0 < v \<and> lit x = Fin v"
proof -
  have x: "0 < x" using assms(1) pow2_pos [of "- 1022"] by simp
  note b = ilog2_bounds [OF x]
  have lo: "- 1022 \<le> ilog2 x"
  proof (rule ccontr)
    assume "\<not> - 1022 \<le> ilog2 x"
    then have "pow2 (ilog2 x + 1) \<le> pow2 (- 1022)" by (intro pow2_mono) simp
    with b assms(1) show False by simp
  qed
  have hi: "ilog2 x \<le> 1022"
  proof (rule ccontr)
    assume "\<not> ilog2 x \<le> 1022"
    then have "pow2 1023 \<le> pow2 (ilog2 x)" by (intro pow2_mono) simp
    with b assms(2) show False by simp
  qed
  from x have "lit x = mk False x" by (simp add: lit_def)
  also have "\<dots> = Fin (of_int (round_half_even (x / pow2 (ilog2 x - 52))) * pow2 (ilog2 x - 52))"
    using mk_normal [OF x lo hi, of False] by simp
  finally show ?thesis using fl_mag_normal(2) [OF x lo hi] by blast
qed

lemma lit_thresholds:
  "lit 3 = Fin 3" "lit 7 = Fin 7" "lit 9 = Fin 9" "lit 14 = Fin 14" "lit 17 = Fin 17"
  "lit 18 = Fin 18" "lit 21 = Fin 21" "lit 22 = Fin 22" "lit 30 = Fin 30"
  by (simp_all add: float_eval)

lemma lit_truthy:
  assumes "1 / 1000 \<le> x" and "x \<le> 1000"
  shows "truthy (Own (lit x))"
proof -
  have "pow2 (- 1022) \<le> 1 / 1000" by (simp add: pow2_def)
  with assms(1) have lo: "pow2 (- 1022) \<le> x" by simp
  have "(1000::rat) < pow2 1023" by (simp add: pow2_def)
  with assms(2) have hi: "x < pow2 1023" by simp
  from lit_pos [OF lo hi] obtain v where "0 < v" "lit x = Fin v" by blast
  then show ?thesis by (simp add: truthy_def)
qed

lemma geo_values_truthy:
  assumes "(cc, g) \<in> set GEO_MULTIPLIERS"
  shows "truthy (Own g)"
proof -
  have "list_all (\<lambda>(k, v). truthy (Own v)) GEO_MULTIPLIERS"
    by (simp add: GEO_MULTIPLIERS_def lit_truthy)
  with assms show ?thesis by (auto simp: list_all_iff)
qed

lemma geo_default_own: "lookup GEO_MULTIPLIERS ''DEFAULT'' = Own (lit 1)"
  by (simp add: lookup_def GEO_MULTIPLIERS_def)

lemma geo_default: "const_of GEO_MULTIPLIERS ''DEFAULT'' = lit 1"
  by (simp add: const_of_def geo_default_own ToNumber_def)

text \<open>
  The geographic multiplier is the table's own value, the default for a name that
  reads \<open>undefined\<close>, and the inherited value for a name of \<open>Object.prototype\<close>.
\<close>

lemma getGeoMultiplier_cases:
  "getGeoMultiplier cc =
     (case lookup GEO_MULTIPLIERS cc of
        Own g \<Rightarrow> Own g | Undefined \<Rightarrow> Own (lit 1) | Inherited n \<Rightarrow> Inherited n)"
proof (cases "lookup GEO_MULTIPLIERS cc")
  case Undefined
  then show ?thesis by (simp add: getGeoMultiplier_def truthy_def geo_default_own)
next
  case (Own g)
  then have "map_of GEO_MULTIPLIERS cc = Some g" by (simp only: lookup_Own_iff)
  then have "(cc, g) \<in> set GEO_MULTIPLIERS" by (rule map_of_SomeD)
  then have "truthy (Own g)" by (rule geo_values_truthy)
  with Own show ?thesis by (simp add: getGeoMultiplier_def)
next
  case (Inherited n)
  then show ?thesis by (simp add: getGeoMultiplier_def truthy_def)
qed

lemma geo_lookup:
  "ToNumber (getGeoMultiplier cc) =
     (case lookup GEO_MULTIPLIERS cc of Own g \<Rightarrow> g | Undefined \<Rightarrow> lit 1 | Inherited n \<Rightarrow> NaN)"
  by (simp add: getGeoMultiplier_cases ToNumber_def split: property.split)

lemma unlisted_lookup:
  assumes "cc \<notin> set listed_countries" and "cc \<notin> set Object_prototype"
  shows "lookup GEO_MULTIPLIERS cc = Undefined \<or> cc = ''DEFAULT''"
proof (cases "cc = ''DEFAULT''")
  case True
  then show ?thesis by simp
next
  case False
  with assms(1) have "cc \<notin> fst ` set GEO_MULTIPLIERS" by (simp add: listed_countries_def)
  then have "map_of GEO_MULTIPLIERS cc = None" by (simp add: map_of_eq_None_iff)
  with assms(2) show ?thesis by (simp add: lookup_Undefined_iff)
qed

lemma geo_unlisted:
  assumes "cc \<notin> set listed_countries" and "cc \<notin> set Object_prototype"
  shows "getGeoMultiplier cc = Own (lit 1)"
proof -
  from unlisted_lookup [OF assms] show ?thesis
  proof
    assume "lookup GEO_MULTIPLIERS cc = Undefined"
    then show ?thesis by (simp add: getGeoMultiplier_cases)
  next
    assume "cc = ''DEFAULT''"
    then show ?thesis by (simp add: getGeoMultiplier_cases geo_default_own)
  qed
qed

lemma geo_inherited:
  assumes "cc \<in> set Object_prototype"
  shows "getGeoMultiplier cc = Inherited cc"
proof -
  have "list_all (\<lambda>k. map_of GEO_MULTIPLIERS k = None) Object_prototype"
    by (simp add: Object_prototype_def GEO_MULTIPLIERS_def)
  with assms have "map_of GEO_MULTIPLIERS cc = None" by (auto simp: list_all_iff)
  with assms have "lookup GEO_MULTIPLIERS cc = Inherited cc" by (simp add: lookup_Inherited_iff)
  then show ?thesis by (simp add: getGeoMultiplier_cases)
qed

lemma bonus_value: "const_of FORMAT_MULTIPLIERS ''AI_GENERATED_BONUS'' = lit 10"
  by (simp add: const_of_def lookup_def FORMAT_MULTIPLIERS_def ToNumber_def)

lemma demand_not_top_center:
  "st \<noteq> ''top_center'' \<Longrightarrow> getDemandMultiplier tza st d = lit 1"
  by (simp add: getDemandMultiplier_def Let_def lookup_def AD_SLOT_TYPES_def const_of_def DEMAND_MULTIPLIERS_def ToNumber_def)

lemma demand_hours:
  assumes "getHours tza d1 = getHours tza d2"
  shows "getDemandMultiplier tza st d1 = getDemandMultiplier tza st d2"
  unfolding getDemandMultiplier_def Let_def if_cancel assms by (rule refl)

lemma calc_demand:
  "demandMultiplier (breakdown (calculatePrice tza r)) =
     getDemandMultiplier tza (slotType r) (startDate r)"
  by (simp add: calculatePrice_def Let_def)

lemma calc_geo:
  "geoMultiplier (breakdown (calculatePrice tza r)) = getGeoMultiplier (countryCode r)"
  by (simp add: calculatePrice_def Let_def)

section \<open>The weekend multiplier\<close>

text \<open>
  Claim C10. A start date that falls on a Saturday or a Sunday (in the host's local
  time) gets the \<open>WEEKEND\<close> multiplier, 1.1, whatever its hour: the test of the day
  comes before every test of the hour, so none of the prime-time, business-hours,
  evening, morning or late-night multipliers is returned for it.
\<close>

theorem getTimeMultiplier_weekend:
  assumes "getDay tza d = Fin 0 \<or> getDay tza d = Fin 6"
  shows "getTimeMultiplier tza d = const_of TIME_MULTIPLIERS ''WEEKEND''
         \<and> const_of TIME_MULTIPLIERS ''WEEKEND'' = lit (11 / 10)"
proof
  from assms show "getTimeMultiplier tza d = const_of TIME_MULTIPLIERS ''WEEKEND''"
    by (auto simp: getTimeMultiplier_def Let_def num_eq_def lit_0 lit_6)
  show "const_of TIME_MULTIPLIERS ''WEEKEND'' = lit (11 / 10)"
    by (simp add: const_of_def lookup_def TIME_MULTIPLIERS_def ToNumber_def)
qed

text \<open>Saturday 1970-01-03 at 10:00, a business hour, on a host on UTC.\<close>

theorem getTimeMultiplier_weekend_witness:
  "getDay UTC (TimeValue 208800000) = Fin 6
   \<and> getHours UTC (TimeValue 208800000) = Fin 10
   \<and> getTimeMultiplier UTC (TimeValue 208800000) = lit (11 / 10)"
proof -
  have d: "getDay UTC (TimeValue 208800000) = Fin 6"
    by (simp add: getDay_def UTC_def)
  have h: "getHours UTC (TimeValue 208800000) = Fin 10"
    by (simp add: getHours_def UTC_def)
  from d have "getDay UTC (TimeValue 208800000) = Fin 0 \<or> getDay UTC (TimeValue 208800000) = Fin 6"
    by simp
  from getTimeMultiplier_weekend [OF this] d h show ?thesis by simp
qed

section \<open>The demand multiplier\<close>

text \<open>
  Claim C2 says that two slot types of the same tier get the same demand multiplier.
  They do not: on a Thursday at 19:00 \<open>top_center\<close> and \<open>top_left\<close>, both of tier
  \<open>TOP\<close>, get 1.8 and 1.0.
\<close>

theorem demand_same_tier_counterexample:
  "lookup SLOT_TIER_MAPPING ''top_center'' = lookup SLOT_TIER_MAPPING ''top_left''
   \<and> demandMultiplier (breakdown (calculatePrice UTC (evening_request ''top_center'' False)))
       = lit (18 / 10)
   \<and> demandMultiplier (breakdown (calculatePrice UTC (evening_request ''top_left'' False)))
       = lit 1
   \<and> lit (18 / 10) \<noteq> lit 1"
proof -
  have t: "lookup SLOT_TIER_MAPPING ''top_center'' = lookup SLOT_TIER_MAPPING ''top_left''"
    by (simp add: lookup_def SLOT_TIER_MAPPING_def)
  have h: "getHours UTC (TimeValue 68400000) = Fin 19"
    by (simp add: getHours_def UTC_def)
  have a: "getDemandMultiplier UTC ''top_center'' (TimeValue 68400000) = lit (18 / 10)"
    by (simp add: getDemandMultiplier_def Let_def h lit_thresholds lookup_def AD_SLOT_TYPES_def
        const_of_def DEMAND_MULTIPLIERS_def ToNumber_def)
  have b: "getDemandMultiplier UTC ''top_left'' (TimeValue 68400000) = lit 1"
    by (simp add: demand_not_top_center)
  have c: "lit (18 / 10) \<noteq> lit 1"
    by (simp add: float_eval)
  from t a b c show ?thesis
    by (simp add: calc_demand evening_request_def)
qed

text \<open>
  Claim C2, amended. The demand multiplier that \<open>calculatePrice\<close> uses depends only
  on whether the slot type is \<open>top_center\<close> and on the local hour of the start date:
  two requests that agree on both get the same demand multiplier, whatever their tiers
  and weekdays. In particular two slot types other than \<open>top_center\<close> always get the
  same one.
\<close>

theorem demand_depends_on_top_center_and_hour:
  fixes r1 :: "'a PricingRequest_scheme" and r2 :: "'b PricingRequest_scheme"
  assumes "(slotType r1 = ''top_center'') = (slotType r2 = ''top_center'')"
    and "getHours tza (startDate r1) = getHours tza (startDate r2)"
  shows "demandMultiplier (breakdown (calculatePrice tza r1))
         = demandMultiplier (breakdown (calculatePrice tza r2))"
proof (cases "slotType r1 = ''top_center''")
  case True
  with assms(1) have "slotType r2 = slotType r1" by simp
  with demand_hours [OF assms(2)] show ?thesis by (simp add: calc_demand)
next
  case False
  with assms(1) have "slotType r2 \<noteq> ''top_center''" by simp
  with False show ?thesis by (simp add: calc_demand demand_not_top_center)
qed

text \<open>A slot of tier \<open>TOP\<close> and one of tier \<open>BOTTOM\<close>, at the same time.\<close>

theorem demand_depends_on_top_center_and_hour_witness:
  "demandMultiplier (breakdown (calculatePrice UTC (evening_request ''top_left'' False)))
   = demandMultiplier (breakdown (calculatePrice UTC (evening_request ''mobile_banner'' True)))"
proof -
  have 1: "(slotType (evening_request ''top_left'' False) = ''top_center'')
           = (slotType (evening_request ''mobile_banner'' True) = ''top_center'')"
    by (simp add: evening_request_def)
  have 2: "getHours UTC (startDate (evening_request ''top_left'' False))
           = getHours UTC (startDate (evening_request ''mobile_banner'' True))"
    by (simp add: evening_request_def)
  from demand_depends_on_top_center_and_hour [OF 1 2] show ?thesis .
qed

section \<open>The price formula\<close>

lemma calc_total:
  "total (breakdown (calculatePrice tza r)) =
     num_add
       (num_mul (num_mul (num_mul (num_mul (num_mul (num_mul (num_mul
          (getBaseRate (lookup SLOT_TIER_MAPPING (slotType r)))
          (ToNumber (lookup SLOT_MULTIPLIERS
                       (ToPropertyKey (lookup SLOT_TIER_MAPPING (slotType r))))))
          (ToNumber (getGeoMultiplier (countryCode r))))
          (getTimeMultiplier tza (startDate r)))
          (ToNumber (lookup FORMAT_MULTIPLIERS (adFormat r))))
          (getDurationDiscount (duration r)))
          (getDemandMultiplier tza (slotType r) (startDate r)))
          (duration r))
       (if isAiGenerated r = Some True
        then const_of FORMAT_MULTIPLIERS ''AI_GENERATED_BONUS'' else lit 0)"
  by (simp add: calculatePrice_def Let_def)

lemma calc_dailyRate:
  "dailyRate (breakdown (calculatePrice tza r)) =
     num_div (total (breakdown (calculatePrice tza r))) (duration r)"
  by (simp add: calculatePrice_def Let_def)

lemma calc_result_total:
  "result_total (calculatePrice tza r) =
     num_div (Math_round (num_mul (total (breakdown (calculatePrice tza r))) (lit 100))) (lit 100)"
  by (simp add: calculatePrice_def Let_def)

lemma calc_result_dailyRate:
  "result_dailyRate (calculatePrice tza r) =
     num_div (Math_round (num_mul (dailyRate (breakdown (calculatePrice tza r))) (lit 100)))
       (lit 100)"
  by (simp add: calculatePrice_def Let_def)

lemma calc_timeMultiplier:
  "timeMultiplier (breakdown (calculatePrice tza r)) = getTimeMultiplier tza (startDate r)"
  by (simp add: calculatePrice_def Let_def)






section \<open>Unlisted countries\<close>

text \<open>
  A country code that the table does not list and that is no name of
  \<open>Object.prototype\<close> gets the default multiplier: the whole result is that of the
  same request with the table's \<open>DEFAULT\<close> entry named as its country.
\<close>

lemma unlisted_country_default:
  assumes "countryCode r \<notin> set listed_countries"
    and "countryCode r \<notin> set Object_prototype"
  shows "geoMultiplier (breakdown (calculatePrice tza r)) = Own (lit 1)
         \<and> calculatePrice tza r = calculatePrice tza (r\<lparr>countryCode := ''DEFAULT''\<rparr>)"
proof -
  have g: "getGeoMultiplier (countryCode r) = Own (lit 1)"
    using assms by (rule geo_unlisted)
  have d: "getGeoMultiplier ''DEFAULT'' = Own (lit 1)"
    by (simp add: getGeoMultiplier_cases geo_default_own)
  show ?thesis
    by (simp add: calc_geo g) (simp add: calculatePrice_def g d)
qed

lemma inherited_country_NaN:
  assumes "countryCode r \<in> set Object_prototype"
  shows "geoMultiplier (breakdown (calculatePrice tza r)) = Inherited (countryCode r)"
    and "result_total (calculatePrice tza r) = NaN"
proof -
  have g: "getGeoMultiplier (countryCode r) = Inherited (countryCode r)"
    using assms by (rule geo_inherited)
  show "geoMultiplier (breakdown (calculatePrice tza r)) = Inherited (countryCode r)"
    by (simp add: calc_geo g)
  show "result_total (calculatePrice tza r) = NaN"
    unfolding calc_result_total calc_total g
    by (simp add: ToNumber_def NaN_propagates)
qed

lemma default_estimate:
  "getQuickEstimate UTC (TimeValue 68400000) ''top_left'' (lit 3) ''DEFAULT'' = lit (11970 / 100)"
proof -
  have hr: "getHours UTC (TimeValue 68400000) = Fin 19"
    by (simp add: getHours_def UTC_def)
  have dy: "getDay UTC (TimeValue 68400000) = Fin 4"
    by (simp add: getDay_def UTC_def)
  have tm: "getTimeMultiplier UTC (TimeValue 68400000) = lit (14 / 10)"
    by (simp add: getTimeMultiplier_def Let_def hr dy num_eq_def lit_0 lit_6 lit_thresholds
        const_of_def lookup_def TIME_MULTIPLIERS_def ToNumber_def)
  have dd: "getDurationDiscount (lit 3) = lit (95 / 100)"
    by (simp add: getDurationDiscount_def lit_thresholds const_of_def lookup_def
        DURATION_DISCOUNTS_def ToNumber_def)
  have dm: "getDemandMultiplier UTC ''top_left'' (TimeValue 68400000) = lit 1"
    by (simp add: demand_not_top_center)
  show ?thesis
    unfolding getQuickEstimate_def calc_result_total calc_total geo_lookup
    by (simp add: tm dd dm getBaseRate_def ToPropertyKey_def const_of_def lookup_def
        ToNumber_def BASE_RATES_def SLOT_MULTIPLIERS_def GEO_MULTIPLIERS_def
        FORMAT_MULTIPLIERS_def SLOT_TIER_MAPPING_def)
       (simp add: float_eval)
qed

text \<open>
  Claim C5 says that every country code that the table does not list gets the default
  multiplier 1.0. The code \<open>constructor\<close> is not listed, but every object inherits a
  property of that name, a function, which is truthy: the \<open>||\<close> keeps it, the
  geographic multiplier is that function, and the price is NaN. The estimate route
  passes such a code to \<open>getQuickEstimate\<close> unchecked: for a \<open>top_left\<close> slot for 3
  days on a Thursday at 19:00 the estimate is NaN, where the default multiplier gives
  119.70.
\<close>

theorem unlisted_country_inherited_name:
  "''constructor'' \<notin> set listed_countries
   \<and> getGeoMultiplier ''constructor'' = Inherited ''constructor''
   \<and> getQuickEstimate UTC (TimeValue 68400000) ''top_left'' (lit 3) ''constructor'' = NaN
   \<and> getQuickEstimate UTC (TimeValue 68400000) ''top_left'' (lit 3) ''DEFAULT''
       = lit (11970 / 100)
   \<and> lit (11970 / 100) \<noteq> NaN"
proof -
  have p: "''constructor'' \<in> set Object_prototype" by (simp add: Object_prototype_def)
  have a: "''constructor'' \<notin> set listed_countries"
    by (simp add: listed_countries_def GEO_MULTIPLIERS_def)
  have b: "getGeoMultiplier ''constructor'' = Inherited ''constructor''"
    using p by (rule geo_inherited)
  have c: "getQuickEstimate UTC (TimeValue 68400000) ''top_left'' (lit 3) ''constructor'' = NaN"
    unfolding getQuickEstimate_def by (rule inherited_country_NaN(2)) (simp add: p)
  have d: "lit (11970 / 100) \<noteq> NaN" by (simp add: float_eval)
  from a b c d default_estimate show ?thesis by simp
qed

section \<open>The duration discount and the bonus\<close>

text \<open>
  The discount factor itself never rises with the duration, and the bonus is added to a
  subtotal that does not depend on the flag.
\<close>

lemma num_ge_trans: "num_ge a b \<Longrightarrow> num_ge b c \<Longrightarrow> num_ge a c"
  by (cases a; cases b; cases c) auto

lemma discount_values:
  "num_ge (lit 1) (lit (95 / 100))" "num_ge (lit (95 / 100)) (lit (90 / 100))"
  "num_ge (lit (90 / 100)) (lit (85 / 100))" "num_ge (lit (85 / 100)) (lit (80 / 100))"
  by (simp_all add: float_eval)

lemma num_ge_refl_lit:
  "num_ge (lit 1) (lit 1)" "num_ge (lit (95 / 100)) (lit (95 / 100))"
  "num_ge (lit (90 / 100)) (lit (90 / 100))" "num_ge (lit (85 / 100)) (lit (85 / 100))"
  "num_ge (lit (80 / 100)) (lit (80 / 100))"
  by (simp_all add: float_eval)

lemma getDurationDiscount_antimono:
  assumes "num_ge d2 d1"
  shows "num_ge (getDurationDiscount d1) (getDurationDiscount d2)"
proof -
  have up: "\<And>c. num_ge d1 c \<Longrightarrow> num_ge d2 c"
    using assms by (rule num_ge_trans)
  note v = discount_values
  note t = num_ge_trans
  have v2: "num_ge (lit 1) (lit (90 / 100))" "num_ge (lit (95 / 100)) (lit (85 / 100))"
    "num_ge (lit (90 / 100)) (lit (80 / 100))"
    using v t by blast+
  have v3: "num_ge (lit 1) (lit (85 / 100))" "num_ge (lit (95 / 100)) (lit (80 / 100))"
    using v v2 t by blast+
  have v4: "num_ge (lit 1) (lit (80 / 100))"
    using v v3 t by blast
  show ?thesis
    using up v v2 v3 v4 num_ge_refl_lit
    by (simp add: getDurationDiscount_def const_of_def lookup_def DURATION_DISCOUNTS_def
        ToNumber_def)
qed

lemma bonus_is_added:
  "total (breakdown (calculatePrice tza r)) =
     num_add (subtotal (breakdown (calculatePrice tza r)))
       (if isAiGenerated r = Some True then lit 10 else lit 0)
   \<and> subtotal (breakdown (calculatePrice tza (r\<lparr>isAiGenerated := a\<rparr>)))
     = subtotal (breakdown (calculatePrice tza r))"
  by (simp add: calculatePrice_def Let_def bonus_value)

section \<open>Evaluation in binary64\<close>

lemmas table_eval = const_of_def lookup_def ToNumber_def ToPropertyKey_def BASE_RATES_def SLOT_MULTIPLIERS_def
  GEO_MULTIPLIERS_def TIME_MULTIPLIERS_def FORMAT_MULTIPLIERS_def DURATION_DISCOUNTS_def
  DEMAND_MULTIPLIERS_def AD_SLOT_TYPES_def SLOT_TIER_MAPPING_def

lemma weekend_factors:
  "getTimeMultiplier UTC (TimeValue 208800000) = lit (11 / 10)"
  "getDemandMultiplier UTC ''top_center'' (TimeValue 208800000) = lit (14 / 10)"
proof -
  have d: "getDay UTC (TimeValue 208800000) = Fin 6" by (simp add: getDay_def UTC_def)
  have h: "getHours UTC (TimeValue 208800000) = Fin 10" by (simp add: getHours_def UTC_def)
  show "getTimeMultiplier UTC (TimeValue 208800000) = lit (11 / 10)"
    by (simp add: getTimeMultiplier_def Let_def d h num_eq_def lit_0 lit_6 table_eval)
  show "getDemandMultiplier UTC ''top_center'' (TimeValue 208800000) = lit (14 / 10)"
    by (simp add: getDemandMultiplier_def Let_def d h lit_thresholds table_eval)
qed

lemma evening_factors:
  "getTimeMultiplier UTC (TimeValue 68400000) = lit (14 / 10)"
  "getDemandMultiplier UTC ''top_left'' (TimeValue 68400000) = lit 1"
proof -
  have d: "getDay UTC (TimeValue 68400000) = Fin 4" by (simp add: getDay_def UTC_def)
  have h: "getHours UTC (TimeValue 68400000) = Fin 19" by (simp add: getHours_def UTC_def)
  show "getTimeMultiplier UTC (TimeValue 68400000) = lit (14 / 10)"
    by (simp add: getTimeMultiplier_def Let_def d h num_eq_def lit_0 lit_6 lit_thresholds
        table_eval)
  show "getDemandMultiplier UTC ''top_left'' (TimeValue 68400000) = lit 1"
    by (simp add: demand_not_top_center)
qed

lemma discounts:
  "getDurationDiscount (lit 3) = lit (95 / 100)"
  "getDurationDiscount (lit 20) = lit (85 / 100)"
  "getDurationDiscount (lit 21) = lit (85 / 100)"
  by (simp_all add: getDurationDiscount_def lit_thresholds table_eval float_eval)

lemma weekend_20_total:
  "total (breakdown (calculatePrice UTC (weekend_request 20)))
   = Fin (2590669297365811 / 2199023255552)"
  unfolding calc_total geo_lookup
  by (simp add: weekend_request_def weekend_factors discounts getBaseRate_def table_eval)
     (simp add: float_eval)

lemma weekend_21_total:
  "total (breakdown (calculatePrice UTC (weekend_request 21)))
   = Fin (1360101381117051 / 1099511627776)"
  unfolding calc_total geo_lookup
  by (simp add: weekend_request_def weekend_factors discounts getBaseRate_def table_eval)
     (simp add: float_eval)

lemma weekend_20_dailyRate:
  "dailyRate (breakdown (calculatePrice UTC (weekend_request 20)))
   = Fin (8290141751570595 / 140737488355328)"
  unfolding calc_dailyRate weekend_20_total
  by (simp add: weekend_request_def float_eval)

lemma weekend_21_dailyRate:
  "dailyRate (breakdown (calculatePrice UTC (weekend_request 21)))
   = Fin (8290141751570597 / 140737488355328)"
  unfolding calc_dailyRate weekend_21_total
  by (simp add: weekend_request_def float_eval)

lemma weekend_20_cents:
  "Math_round (num_mul (Fin (8290141751570595 / 140737488355328)) (lit 100)) = Fin 5890"
  by (simp add: float_eval)

lemma weekend_21_cents:
  "Math_round (num_mul (Fin (8290141751570597 / 140737488355328)) (lit 100)) = Fin 5891"
  by (simp add: float_eval)

lemma cents_5890: "num_div (Fin 5890) (lit 100) = lit (5890 / 100)"
  by (simp add: float_eval)

lemma cents_5891: "num_div (Fin 5891) (lit 100) = lit (5891 / 100)"
  by (simp add: float_eval)

lemma lit_5890_lt_5891: "num_lt (lit (5890 / 100)) (lit (5891 / 100))"
  by (simp add: float_eval)

text \<open>
  Claim C3 says that the daily rate returned for the longer of two otherwise equal
  requests is at most the one returned for the shorter. For a \<open>top_center\<close> image ad in
  the US starting on a Saturday at 10:00, the exact daily rate is 58.905 for 20 days and
  for 21 days alike. In binary64 the total divided by the duration is just below 58.905
  for 20 days and just above it for 21 days, so that the rounding to cents returns 58.90
  for 20 days and 58.91 for 21 days: the longer campaign costs more per day.
\<close>

theorem dailyRate_not_monotone_in_duration:
  "result_dailyRate (calculatePrice UTC (weekend_request 20)) = lit (5890 / 100)
   \<and> result_dailyRate (calculatePrice UTC (weekend_request 21)) = lit (5891 / 100)
   \<and> num_lt (result_dailyRate (calculatePrice UTC (weekend_request 20)))
        (result_dailyRate (calculatePrice UTC (weekend_request 21)))"
proof -
  have a: "result_dailyRate (calculatePrice UTC (weekend_request 20)) = lit (5890 / 100)"
    unfolding calc_result_dailyRate weekend_20_dailyRate weekend_20_cents by (rule cents_5890)
  have b: "result_dailyRate (calculatePrice UTC (weekend_request 21)) = lit (5891 / 100)"
    unfolding calc_result_dailyRate weekend_21_dailyRate weekend_21_cents by (rule cents_5891)
  show ?thesis unfolding a b using lit_5890_lt_5891 by simp
qed

lemma evening_total:
  "total (breakdown (calculatePrice UTC (evening_request ''top_left'' False)))
   = Fin (8844295611969699 / 70368744177664)"
  unfolding calc_total geo_lookup
  by (simp add: evening_request_def evening_factors discounts getBaseRate_def table_eval)
     (simp add: float_eval)

lemma evening_total_ai:
  "total (breakdown (calculatePrice UTC (evening_request ''top_left'' True)))
   = Fin (2386995763436585 / 17592186044416)"
  unfolding calc_total geo_lookup
  by (simp add: evening_request_def evening_factors discounts getBaseRate_def table_eval)
     (simp add: float_eval)

lemma evening_cents:
  "Math_round (num_mul (Fin (8844295611969699 / 70368744177664)) (lit 100)) = Fin 12568"
  by (simp add: float_eval)

lemma evening_cents_ai:
  "Math_round (num_mul (Fin (2386995763436585 / 17592186044416)) (lit 100)) = Fin 13569"
  by (simp add: float_eval)

lemma cents_12568: "num_div (Fin 12568) (lit 100) = lit (12568 / 100)"
  by (simp add: float_eval)

lemma cents_13569: "num_div (Fin 13569) (lit 100) = lit (13569 / 100)"
  by (simp add: float_eval)

lemma plus_ten: "num_add (lit (12568 / 100)) (lit 10) = lit (13568 / 100)"
  by (simp add: float_eval)

lemma lit_13568_lt_13569: "num_lt (lit (13568 / 100)) (lit (13569 / 100))"
  by (simp add: float_eval)

text \<open>
  Claim C4 says that the flag for AI-generated content raises the total returned by
  exactly 10. For a \<open>top_left\<close> video ad in Kenya for 3 days starting on a Thursday at
  19:00, the exact subtotal is 125.685. In binary64 the subtotal is just below 125.685
  and rounds to 125.68, while the subtotal plus 10 is 135.685 and rounds to 135.69: the
  totals returned differ by 10.01.
\<close>

theorem ai_bonus_not_exactly_ten:
  "result_total (calculatePrice UTC (evening_request ''top_left'' False)) = lit (12568 / 100)
   \<and> result_total (calculatePrice UTC (evening_request ''top_left'' True)) = lit (13569 / 100)
   \<and> num_add (result_total (calculatePrice UTC (evening_request ''top_left'' False))) (lit 10)
       = lit (13568 / 100)
   \<and> num_lt (lit (13568 / 100))
        (result_total (calculatePrice UTC (evening_request ''top_left'' True)))"
proof -
  have a: "result_total (calculatePrice UTC (evening_request ''top_left'' False))
           = lit (12568 / 100)"
    unfolding calc_result_total evening_total evening_cents by (rule cents_12568)
  have b: "result_total (calculatePrice UTC (evening_request ''top_left'' True))
           = lit (13569 / 100)"
    unfolding calc_result_total evening_total_ai evening_cents_ai by (rule cents_13569)
  show ?thesis unfolding a b using plus_ten lit_13568_lt_13569 by simp
qed

section \<open>Rounding\<close>









section \<open>Determinism\<close>

lemma time_depends_on_local_time:
  assumes "getHours tza1 d1 = getHours tza2 d2" and "getDay tza1 d1 = getDay tza2 d2"
  shows "getTimeMultiplier tza1 d1 = getTimeMultiplier tza2 d2"
  by (simp add: getTimeMultiplier_def assms)

lemma demand_depends_on_local_time:
  assumes "getHours tza1 d1 = getHours tza2 d2" and "getDay tza1 d1 = getDay tza2 d2"
  shows "getDemandMultiplier tza1 st d1 = getDemandMultiplier tza2 st d2"
  by (simp add: getDemandMultiplier_def assms)

lemma tokyo_factors:
  "getTimeMultiplier TOKYO (TimeValue 68400000) = lit (6 / 10)"
  "getDemandMultiplier TOKYO ''top_left'' (TimeValue 68400000) = lit 1"
proof -
  have d: "getDay TOKYO (TimeValue 68400000) = Fin 5" by (simp add: getDay_def TOKYO_def)
  have h: "getHours TOKYO (TimeValue 68400000) = Fin 4" by (simp add: getHours_def TOKYO_def)
  show "getTimeMultiplier TOKYO (TimeValue 68400000) = lit (6 / 10)"
    by (simp add: getTimeMultiplier_def Let_def d h num_eq_def lit_0 lit_6 lit_thresholds
        table_eval)
  show "getDemandMultiplier TOKYO ''top_left'' (TimeValue 68400000) = lit 1"
    by (simp add: demand_not_top_center)
qed

lemma tokyo_total_ai:
  "total (breakdown (calculatePrice TOKYO (evening_request ''top_left'' True)))
   = Fin (4494099846906511 / 70368744177664)"
  unfolding calc_total geo_lookup
  by (simp add: evening_request_def tokyo_factors discounts getBaseRate_def table_eval)
     (simp add: float_eval)

lemma tokyo_cents_ai:
  "Math_round (num_mul (Fin (4494099846906511 / 70368744177664)) (lit 100)) = Fin 6386"
  by (simp add: float_eval)

lemma cents_6386: "num_div (Fin 6386) (lit 100) = lit (6386 / 100)"
  by (simp add: float_eval)

lemma lit_6386_neq: "lit (13569 / 100) \<noteq> lit (6386 / 100)"
  by (simp add: float_eval)

text \<open>
  Claim C7 says that the result depends on nothing but the inputs. It depends on the
  time zone of the process, which \<open>getHours\<close> and \<open>getDay\<close> read: the same request,
  with the same start timestamp (1970-01-01T19:00:00Z), gets the prime-time multiplier
  and the total 135.69 on a host on UTC, and the late-night multiplier and the total
  63.86 on a host nine hours ahead, where it is Friday 04:00.
\<close>

theorem calculatePrice_depends_on_time_zone:
  "timeMultiplier (breakdown (calculatePrice UTC (evening_request ''top_left'' True)))
     = lit (14 / 10)
   \<and> timeMultiplier (breakdown (calculatePrice TOKYO (evening_request ''top_left'' True)))
     = lit (6 / 10)
   \<and> result_total (calculatePrice UTC (evening_request ''top_left'' True)) = lit (13569 / 100)
   \<and> result_total (calculatePrice TOKYO (evening_request ''top_left'' True)) = lit (6386 / 100)
   \<and> calculatePrice UTC (evening_request ''top_left'' True)
       \<noteq> calculatePrice TOKYO (evening_request ''top_left'' True)"
proof -
  have a: "timeMultiplier (breakdown (calculatePrice UTC (evening_request ''top_left'' True)))
           = lit (14 / 10)"
    by (simp add: calc_timeMultiplier evening_request_def evening_factors)
  have b: "timeMultiplier (breakdown (calculatePrice TOKYO (evening_request ''top_left'' True)))
           = lit (6 / 10)"
    by (simp add: calc_timeMultiplier evening_request_def tokyo_factors)
  have c: "result_total (calculatePrice UTC (evening_request ''top_left'' True))
           = lit (13569 / 100)"
    unfolding calc_result_total evening_total_ai evening_cents_ai by (rule cents_13569)
  have d: "result_total (calculatePrice TOKYO (evening_request ''top_left'' True))
           = lit (6386 / 100)"
    unfolding calc_result_total tokyo_total_ai tokyo_cents_ai by (rule cents_6386)
  have "result_total (calculatePrice UTC (evening_request ''top_left'' True))
        \<noteq> result_total (calculatePrice TOKYO (evening_request ''top_left'' True))"
    unfolding c d by (rule lit_6386_neq)
  then have e: "calculatePrice UTC (evening_request ''top_left'' True)
                \<noteq> calculatePrice TOKYO (evening_request ''top_left'' True)"
    by auto
  from a b c d e show ?thesis by blast
qed

text \<open>
  Claim C7, amended. On a given host \<open>calculatePrice\<close> is deterministic, and of the
  host it uses nothing but the time zone: its result is a function of the slot type,
  the duration, the country code, the format, the AI flag and of the hour and the
  weekday of the start date in the local time of the host. Two invocations that agree
  on these return the same result, whatever else the request objects carry and on
  whatever hosts they run; it reads no other state and has no effect.
\<close>

theorem calculatePrice_function_of_fields_and_local_time:
  fixes r1 :: "'a PricingRequest_scheme" and r2 :: "'b PricingRequest_scheme"
  assumes "slotType r1 = slotType r2" and "duration r1 = duration r2"
    and "countryCode r1 = countryCode r2" and "adFormat r1 = adFormat r2"
    and "isAiGenerated r1 = isAiGenerated r2"
    and "getHours tza1 (startDate r1) = getHours tza2 (startDate r2)"
    and "getDay tza1 (startDate r1) = getDay tza2 (startDate r2)"
  shows "calculatePrice tza1 r1 = calculatePrice tza2 r2"
proof -
  have t: "getTimeMultiplier tza1 (startDate r1) = getTimeMultiplier tza2 (startDate r2)"
    using assms(6,7) by (rule time_depends_on_local_time)
  have d: "getDemandMultiplier tza1 (slotType r2) (startDate r1)
           = getDemandMultiplier tza2 (slotType r2) (startDate r2)"
    using assms(6,7) by (rule demand_depends_on_local_time)
  show ?thesis
    by (simp add: calculatePrice_def assms(1-5) t d)
qed

text \<open>
  Thursday 19:00 on a host on UTC and Thursday 19:00 on a host nine hours ahead, nine
  hours apart; the second request object carries a further property.
\<close>

theorem calculatePrice_function_of_fields_and_local_time_witness:
  "calculatePrice UTC (evening_request ''top_left'' True)
   = calculatePrice TOKYO
       (PricingRequest.extend
          (evening_request ''top_left'' True\<lparr>startDate := TimeValue 36000000\<rparr>) ''memo'')"
  by (rule calculatePrice_function_of_fields_and_local_time)
     (simp_all add: PricingRequest.defs evening_request_def getHours_def getDay_def UTC_def
        TOKYO_def)

section \<open>The route \<open>POST /calculate\<close>\<close>

lemma handler_on_valid:
  assumes "pricingRequestSchema_parse h b = Inr req"
  shows "calculate_handler h b
         = \<lparr>status = 200, body = SuccessBody (calculatePrice (LocalTZA h) req)\<rparr>"
  using assms by (cases req) (simp add: calculate_handler_def)

lemma handler_on_invalid:
  assumes "pricingRequestSchema_parse h b = Inl issues"
  shows "calculate_handler h b
         = \<lparr>status = 400, body = ErrorBody (ZodError_message h issues)\<rparr>"
  using assms by (simp add: calculate_handler_def)

text \<open>
  Claim C8. Whatever the body of the request, the handler answers in one of two ways.
  When the body passes the validation, it answers with status 200 and the body
  \<open>{success: true, ...}\<close> that carries the result of \<open>calculatePrice\<close> on the
  validated request. When the validation fails, it answers with status 400 and the body
  \<open>{success: false, error}\<close> whose error is the message of the validation error.
  (\<open>calculatePrice\<close> itself never throws.)
\<close>

theorem calculate_handler_outcomes:
  "(\<exists>req. pricingRequestSchema_parse h b = Inr req
          \<and> calculate_handler h b
              = \<lparr>status = 200, body = SuccessBody (calculatePrice (LocalTZA h) req)\<rparr>)
   \<or> (\<exists>issues. pricingRequestSchema_parse h b = Inl issues
          \<and> calculate_handler h b
              = \<lparr>status = 400, body = ErrorBody (ZodError_message h issues)\<rparr>)"
proof (cases "pricingRequestSchema_parse h b")
  case (Inl issues)
  then show ?thesis using handler_on_invalid by blast
next
  case (Inr req)
  then show ?thesis using handler_on_valid by blast
qed

lemma sample_parse:
  "pricingRequestSchema_parse sample_host (Some sample_body)
   = Inr (evening_request ''top_left'' True)"
  by (simp add: pricingRequestSchema_parse_def sample_body_def sample_host_def Let_def
      z_string_def z_number_min_max_def z_string_length_def z_string_transform_def z_enum_def
      z_boolean_optional_default_def evening_request_def lit_1 lit_thresholds
      lit_def [of 3, simplified] )

theorem calculate_handler_outcomes_witness:
  "calculate_handler sample_host (Some sample_body)
     = \<lparr>status = 200,
        body = SuccessBody (calculatePrice UTC (evening_request ''top_left'' True))\<rparr>
   \<and> calculate_handler sample_host None
     = \<lparr>status = 400, body = ErrorBody ''validation failed''\<rparr>"
proof -
  have n: "pricingRequestSchema_parse sample_host None = Inl [invalid_type []]"
    by (simp add: pricingRequestSchema_parse_def)
  from calculate_handler_outcomes [of sample_host "Some sample_body"] sample_parse
  have a: "calculate_handler sample_host (Some sample_body)
     = \<lparr>status = 200,
        body = SuccessBody (calculatePrice UTC (evening_request ''top_left'' True))\<rparr>"
    by (auto simp: sample_host_def)
  from calculate_handler_outcomes [of sample_host None] n
  have b: "calculate_handler sample_host None
     = \<lparr>status = 400, body = ErrorBody ''validation failed''\<rparr>"
    by (auto simp: sample_host_def)
  from a b show ?thesis by simp
qed

section \<open>The referral engine: \<open>processRewards\<close>\<close>

lemma processRewards_loop_counts:
  assumes "processRewards_loop P ids acc w = (acc', w')"
  shows "processed acc' + failed acc' = processed acc + failed acc + length ids
         \<and> length (errors acc') + failed acc = length (errors acc) + failed acc'"
  using assms
proof (induction ids arbitrary: acc w)
  case Nil
  then show ?case by simp
next
  case (Cons rewardId rest)
  obtain outcome w1 where step: "processReward P rewardId w = (outcome, w1)"
    by (cases "processReward P rewardId w")
  show ?case
  proof (cases outcome)
    case None
    with step Cons.prems
    have "processRewards_loop P rest (acc\<lparr>processed := processed acc + 1\<rparr>) w1 = (acc', w')"
      by simp
    from Cons.IH [OF this] show ?thesis by simp
  next
    case (Some msg)
    with step Cons.prems
    have "processRewards_loop P rest
            (acc\<lparr>errors := errors acc @ [msg], failed := failed acc + 1\<rparr>) w1 = (acc', w')"
      by simp
    from Cons.IH [OF this] show ?thesis by simp
  qed
qed

lemma processRewards_mock_loop:
  "processRewards_loop (mock_persistence now) ids acc w
   = (acc\<lparr>errors := errors acc @ map (\<lambda>rewardId. ''Reward '' @ rewardId @ '' not found'') ids,
          failed := failed acc + length ids\<rparr>, w)"
  by (induction ids arbitrary: acc) (simp_all add: processReward_def mock_persistence_def)

text \<open>
  Claim C9. For every list of reward ids, whatever the persistence methods return or
  throw, the counts returned by \<open>processRewards\<close> add up to the number of ids, and
  \<open>errors\<close> holds one message for each failed id: every turn of the loop adds one to
  exactly one of the two counters, and a message exactly when it adds to \<open>failed\<close>.
\<close>

theorem processRewards_counts:
  "processed (fst (processRewards P rewardIds w)) + failed (fst (processRewards P rewardIds w))
     = length rewardIds
   \<and> length (errors (fst (processRewards P rewardIds w)))
     = failed (fst (processRewards P rewardIds w))"
proof -
  obtain acc' w' where r: "processRewards P rewardIds w = (acc', w')"
    by (cases "processRewards P rewardIds w")
  then have "processRewards_loop P rewardIds \<lparr>processed = 0, failed = 0, errors = []\<rparr> w
             = (acc', w')"
    by (simp add: processRewards_def)
  from processRewards_loop_counts [OF this] r show ?thesis by simp
qed

text \<open>With the mock methods of the class every id fails, as not found.\<close>

theorem processRewards_counts_witness:
  "fst (processRewards (mock_persistence InvalidDate) [''r1'', ''r2''] ())
     = \<lparr>processed = 0, failed = 2,
        errors = [''Reward r1 not found'', ''Reward r2 not found'']\<rparr>
   \<and> processed (fst (processRewards (mock_persistence InvalidDate) [''r1'', ''r2''] ()))
     + failed (fst (processRewards (mock_persistence InvalidDate) [''r1'', ''r2''] ()))
     = length [''r1'', ''r2'']"
proof -
  have "fst (processRewards (mock_persistence InvalidDate) [''r1'', ''r2''] ())
     = \<lparr>processed = 0, failed = 2,
        errors = [''Reward r1 not found'', ''Reward r2 not found'']\<rparr>"
    unfolding processRewards_def processRewards_mock_loop by simp
  with processRewards_counts [of "mock_persistence InvalidDate" "[''r1'', ''r2'']" "()"]
  show ?thesis by simp
qed

end
